theory Spec2Isabelle
  imports Main "HOL-Library.Word"
begin

unbundle bit_operations_syntax

section \<open>Data model of the parallel copier (package autocopy)\<close>

text \<open>
  The types of the replication engine, field by field. Three kinds of field are left
  out because nothing below depends on them and they have no value in HOL: formatted
  messages, floating-point percentages, and wall-clock times and durations
  (\<open>Message\<close>, \<open>Percentage\<close>, \<open>ElapsedTime\<close>, \<open>EstimatedETA\<close>, \<open>Timestamp\<close>,
  \<open>startTime\<close>). The two callbacks of the options are represented by whether they are
  non-nil; what a callback is called with is logged in the engine state.
\<close>

type_synonym byte = "8 word"

datatype ProgressType =
    ProgressTypeStart | ProgressTypeProgress | ProgressTypeComplete | ProgressTypeError

text \<open>One constructor for each error value the engine builds or passes on.\<close>

datatype error =
    StatFailed string                \<comment> \<open>failed to stat <path>\<close>
  | ExpectedFile string              \<comment> \<open>expected file but found directory: <path>\<close>
  | ExpectedDirectory string         \<comment> \<open>expected directory but found file: <path>\<close>
  | WalkFailed string                \<comment> \<open>failed to walk directory <path>\<close>
  | GlobFailed string                \<comment> \<open>glob pattern failed for <item path>\<close>
  | DiscoverFailed error             \<comment> \<open>failed to discover copy tasks: <cause>\<close>
  | MkdirAllError                    \<comment> \<open>the error of os.MkdirAll, returned as it is\<close>
  | CreateDirFailed                  \<comment> \<open>failed to create destination directory\<close>
  | OpenFailed                       \<comment> \<open>failed to open source file\<close>
  | CreateFailed                     \<comment> \<open>failed to create destination file\<close>
  | CopyFailed                       \<comment> \<open>failed to copy file\<close>
  | UnsupportedChecksum string       \<comment> \<open>unsupported checksum type: <type>\<close>
  | IntegrityFailed                  \<comment> \<open>integrity verification failed: checksums don't match\<close>

record ProgressUpdate =
  Type :: ProgressType
  Current :: int
  Total :: int
  BytesCopied :: int
  TotalBytes :: int

record CopyError =
  ErrSourcePath :: string
  ErrDestPath :: string
  Error :: error

record CopyTask =
  SourcePath :: string
  DestPath :: string
  IsDir :: bool
  Size :: int

record ParallelCopyOptions =
  MaxWorkers :: int
  BufferSize :: int
  ShowProgress :: bool
  VerifyIntegrity :: bool
  ChecksumType :: string
  ContinueOnError :: bool
  ProgressCallback :: bool   \<comment> \<open>the callback is not nil\<close>
  ErrorCallback :: bool      \<comment> \<open>the callback is not nil\<close>

record AutoCopyItem =
  Path :: string
  Directory :: "bool option"   \<comment> \<open>a *bool: nil is None\<close>
  Recursive :: bool
  RootOnly :: bool
  AutoDetect :: bool
  UseGlob :: bool
  Exclude :: "string list"
  Include :: "string list"

definition NewParallelCopier :: "ParallelCopyOptions \<Rightarrow> ParallelCopyOptions" where
  "NewParallelCopier options =
     (let o1 = (if MaxWorkers options \<le> 0 then options\<lparr>MaxWorkers := 4\<rparr> else options);
          o2 = (if BufferSize o1 \<le> 0 then o1\<lparr>BufferSize := 64 * 1024\<rparr> else o1);
          o3 = (if ChecksumType o2 = [] then o2\<lparr>ChecksumType := ''sha256''\<rparr> else o2)
      in o3)"

section \<open>Machine arithmetic\<close>

text \<open>
  \<open>int64\<close> addition wraps around in Go; \<open>wrap64\<close> is the two's-complement value of
  an unbounded sum. Go's \<open>%\<close> truncates towards zero.
\<close>

definition wrap64 :: "int \<Rightarrow> int" where
  "wrap64 x = (x + 2 ^ 63) mod 2 ^ 64 - 2 ^ 63"

definition go_rem :: "int \<Rightarrow> int \<Rightarrow> int" where
  "go_rem a b = sgn a * (\<bar>a\<bar> mod \<bar>b\<bar>)"

section \<open>The operating system and path library, as seen by discovery\<close>

text \<open>
  Discovery reads the file system through \<open>os.Stat\<close>, \<open>filepath.Glob\<close> and
  \<open>filepath.Walk\<close> and builds paths with \<open>filepath.Join\<close> and \<open>filepath.Rel\<close>.
  These belong to the Go library and to the machine the tool runs on; they are taken as
  parameters. \<open>Walk\<close> lists, in order, the calls the library makes to the walk function:
  the path visited and what was found there (\<open>WalkErr\<close> for a non-nil \<open>walkErr\<close>).
\<close>

datatype stat_result =
    StatNotExist      \<comment> \<open>an error for which os.IsNotExist holds\<close>
  | StatError         \<comment> \<open>any other error\<close>
  | StatDir           \<comment> \<open>info.IsDir() is true\<close>
  | StatFile int      \<comment> \<open>not a directory; info.Size()\<close>

datatype walk_info = WalkErr | WalkDir | WalkFile int

record env =
  Join :: "string \<Rightarrow> string \<Rightarrow> string"
  Rel :: "string \<Rightarrow> string \<Rightarrow> string option"
  Stat :: "string \<Rightarrow> stat_result"
  Glob :: "string \<Rightarrow> string list option"
  Walk :: "string \<Rightarrow> (string \<times> walk_info) list"

section \<open>Channels\<close>

text \<open>
  A buffered channel is the list of the values it holds, oldest first. Both senders of
  the engine use \<open>select\<close> with a \<open>default\<close> branch: the value is appended when the
  buffer (capacity 100 for both streams) has room, and dropped otherwise.
\<close>

definition sendProgressUpdate ::
  "ParallelCopyOptions \<Rightarrow> ProgressUpdate \<Rightarrow> ProgressUpdate list \<Rightarrow> ProgressUpdate list" where
  "sendProgressUpdate options update ch =
     (if ShowProgress options then
        (if length ch < 100 then ch @ [update] else ch)
      else ch)"

definition sendError :: "CopyError \<Rightarrow> CopyError list \<Rightarrow> CopyError list" where
  "sendError err ch = (if length ch < 100 then ch @ [err] else ch)"

section \<open>Task discovery\<close>

fun walkTasks ::
  "env \<Rightarrow> string \<Rightarrow> string \<Rightarrow> (string \<times> walk_info) list \<Rightarrow> CopyTask list
     \<Rightarrow> error + CopyTask list" where
  "walkTasks e sourcePath destPath [] tasks = Inr tasks"
| "walkTasks e sourcePath destPath ((walkPath, walkInfo) # rest) tasks =
     (if walkInfo = WalkErr then Inl (WalkFailed sourcePath)
      else if walkPath = sourcePath then walkTasks e sourcePath destPath rest tasks
      else (case Rel e sourcePath walkPath of
              None \<Rightarrow> Inl (WalkFailed sourcePath)
            | Some relWalkPath \<Rightarrow>
                (let destWalkPath = Join e destPath relWalkPath in
                 (case walkInfo of
                    WalkFile sz \<Rightarrow>
                      walkTasks e sourcePath destPath rest
                        (tasks @ [\<lparr>SourcePath = walkPath, DestPath = destWalkPath,
                                   IsDir = False, Size = sz\<rparr>])
                  | _ \<Rightarrow>
                      walkTasks e sourcePath destPath rest
                        (tasks @ [\<lparr>SourcePath = walkPath, DestPath = destWalkPath,
                                   IsDir = True, Size = 0\<rparr>])))))"

definition discoverSinglePath ::
  "env \<Rightarrow> string \<Rightarrow> string \<Rightarrow> string \<Rightarrow> AutoCopyItem \<Rightarrow> error + CopyTask list" where
  "discoverSinglePath e sourceDir destDir relativePath item =
     (let sourcePath = Join e sourceDir relativePath;
          destPath = Join e destDir relativePath
      in case Stat e sourcePath of
           StatNotExist \<Rightarrow>
             (if AutoDetect item then Inr [] else Inl (StatFailed sourcePath))
         | StatError \<Rightarrow> Inl (StatFailed sourcePath)
         | StatDir \<Rightarrow>
             (if Directory item = Some False then Inl (ExpectedFile sourcePath)
              else (let tasks = [\<lparr>SourcePath = sourcePath, DestPath = destPath,
                                   IsDir = True, Size = 0\<rparr>]
                    in if Recursive item
                       then walkTasks e sourcePath destPath (Walk e sourcePath) tasks
                       else Inr tasks))
         | StatFile sz \<Rightarrow>
             (if Directory item = Some True then Inl (ExpectedDirectory sourcePath)
              else Inr [\<lparr>SourcePath = sourcePath, DestPath = destPath,
                         IsDir = False, Size = sz\<rparr>]))"

fun globTasks ::
  "env \<Rightarrow> ParallelCopyOptions \<Rightarrow> string \<Rightarrow> string \<Rightarrow> AutoCopyItem \<Rightarrow> string list
     \<Rightarrow> CopyTask list \<Rightarrow> error + CopyTask list" where
  "globTasks e options sourceDir destDir item [] tasks = Inr tasks"
| "globTasks e options sourceDir destDir item (match # rest) tasks =
     (case Rel e sourceDir match of
        None \<Rightarrow> globTasks e options sourceDir destDir item rest tasks
      | Some relPath \<Rightarrow>
          (case discoverSinglePath e sourceDir destDir relPath item of
             Inl err \<Rightarrow>
               (if ContinueOnError options
                then globTasks e options sourceDir destDir item rest tasks
                else Inl err)
           | Inr itemTasks \<Rightarrow>
               globTasks e options sourceDir destDir item rest (tasks @ itemTasks)))"

definition discoverItemTasks ::
  "env \<Rightarrow> ParallelCopyOptions \<Rightarrow> string \<Rightarrow> string \<Rightarrow> AutoCopyItem
     \<Rightarrow> error + CopyTask list" where
  "discoverItemTasks e options sourceDir destDir item =
     (let sourcePath = Join e sourceDir (Path item)
      in if UseGlob item then
           (case Glob e sourcePath of
              None \<Rightarrow> Inl (GlobFailed (Path item))
            | Some matches \<Rightarrow> globTasks e options sourceDir destDir item matches [])
         else
           (case discoverSinglePath e sourceDir destDir (Path item) item of
              Inl err \<Rightarrow> Inl err
            | Inr itemTasks \<Rightarrow> Inr ([] @ itemTasks)))"

text \<open>
  \<open>discoverTasks\<close> is the loop over the configured items. It is the only place of
  discovery that writes to the error stream, so the stream's buffer is passed in and
  returned. The loop is started with no tasks.
\<close>

fun discoverTasks_loop ::
  "env \<Rightarrow> ParallelCopyOptions \<Rightarrow> string \<Rightarrow> string \<Rightarrow> AutoCopyItem list
     \<Rightarrow> CopyTask list \<Rightarrow> CopyError list \<Rightarrow> (error + CopyTask list) \<times> CopyError list" where
  "discoverTasks_loop e options sourceDir destDir [] tasks ch = (Inr tasks, ch)"
| "discoverTasks_loop e options sourceDir destDir (item # rest) tasks ch =
     (case discoverItemTasks e options sourceDir destDir item of
        Inl err \<Rightarrow>
          (if ContinueOnError options
           then discoverTasks_loop e options sourceDir destDir rest tasks
                  (sendError \<lparr>ErrSourcePath = Path item, ErrDestPath = [], Error = err\<rparr> ch)
           else (Inl err, ch))
      | Inr itemTasks \<Rightarrow>
          discoverTasks_loop e options sourceDir destDir rest (tasks @ itemTasks) ch)"

definition discoverTasks ::
  "env \<Rightarrow> ParallelCopyOptions \<Rightarrow> string \<Rightarrow> string \<Rightarrow> AutoCopyItem list
     \<Rightarrow> CopyError list \<Rightarrow> (error + CopyTask list) \<times> CopyError list" where
  "discoverTasks e options sourceDir destDir items ch =
     discoverTasks_loop e options sourceDir destDir items [] ch"

section \<open>Copying one file\<close>

text \<open>
  The file system as a worker sees it when it processes one task: the regular files with
  their bytes and permission bits, the process's umask, \<open>filepath.Dir\<close>, and which
  calls of the operating system fail. Directories are not tracked: \<open>os.MkdirAll\<close>
  either fails or succeeds.
\<close>

record regfile =
  content :: "byte list"
  mode :: "32 word"

record fsys =
  files :: "string \<Rightarrow> regfile option"
  umask :: "32 word"
  Dir :: "string \<Rightarrow> string"
  mkdirAllFails :: "string \<Rightarrow> bool"
  openFails :: "string \<Rightarrow> bool"
  createFails :: "string \<Rightarrow> bool"
  statFails :: "string \<Rightarrow> bool"
  chmodFails :: "string \<Rightarrow> bool"

text \<open>
  What one streaming pass of \<open>io.CopyBuffer\<close> (or \<open>io.Copy\<close>) did: whether it
  returned an error, the bytes that reached the destination file, and, when the pass
  runs through the two SHA-256 hashes, what \<open>sourceHash.Sum(nil)\<close> and
  \<open>destHash.Sum(nil)\<close> return afterwards. The pass and the hash are library code and
  are taken as they come.
\<close>

record pass =
  copyErr :: bool
  written :: "byte list"
  sourceSum :: "byte list"
  destSum :: "byte list"

function equalBytes_from :: "byte list \<Rightarrow> byte list \<Rightarrow> nat \<Rightarrow> bool" where
  "equalBytes_from a b i =
     (if i < length a
      then (if a ! i \<noteq> b ! i then False else equalBytes_from a b (i + 1))
      else True)"
  by pat_completeness auto
termination
  by (relation "measure (\<lambda>(a, b, i). length a - i)") auto

declare equalBytes_from.simps [simp del]

definition equalBytes :: "byte list \<Rightarrow> byte list \<Rightarrow> bool" where
  "equalBytes a b = (if length a \<noteq> length b then False else equalBytes_from a b 0)"

text \<open>
  \<open>os.Create\<close> opens with \<open>O_RDWR|O_CREATE|O_TRUNC\<close> and permission \<open>0666\<close>
  (438): an existing file is emptied and keeps its mode, a new one gets \<open>0666\<close>
  without the umask bits.
\<close>

definition os_Create :: "fsys \<Rightarrow> string \<Rightarrow> fsys" where
  "os_Create fs name =
     (case files fs name of
        Some f \<Rightarrow> fs\<lparr>files := (files fs)(name := Some (f\<lparr>content := []\<rparr>))\<rparr>
      | None \<Rightarrow>
          fs\<lparr>files := (files fs)(name := Some \<lparr>content = [], mode = 438 AND NOT (umask fs)\<rparr>)\<rparr>)"

definition os_Write :: "fsys \<Rightarrow> string \<Rightarrow> byte list \<Rightarrow> fsys" where
  "os_Write fs name bs =
     (case files fs name of
        Some f \<Rightarrow> fs\<lparr>files := (files fs)(name := Some (f\<lparr>content := content f @ bs\<rparr>))\<rparr>
      | None \<Rightarrow> fs)"

definition os_Chmod :: "fsys \<Rightarrow> string \<Rightarrow> 32 word \<Rightarrow> fsys" where
  "os_Chmod fs name m =
     (if chmodFails fs name then fs
      else (case files fs name of
              Some f \<Rightarrow> fs\<lparr>files := (files fs)(name := Some (f\<lparr>mode := m\<rparr>))\<rparr>
            | None \<Rightarrow> fs))"

definition copyWithVerification ::
  "ParallelCopyOptions \<Rightarrow> fsys \<Rightarrow> pass \<Rightarrow> string \<Rightarrow> string \<Rightarrow> error option \<times> fsys" where
  "copyWithVerification options fs p sourcePath destPath =
     (if ChecksumType options = ''sha256'' then
        (let fs' = os_Write fs destPath (written p) in
         if copyErr p then (Some CopyFailed, fs')
         else if \<not> equalBytes (sourceSum p) (destSum p) then (Some IntegrityFailed, fs')
         else (None, fs'))
      else (Some (UnsupportedChecksum (ChecksumType options)), fs))"

definition copyFile ::
  "ParallelCopyOptions \<Rightarrow> fsys \<Rightarrow> pass \<Rightarrow> string \<Rightarrow> string \<Rightarrow> error option \<times> fsys" where
  "copyFile options fs p sourcePath destPath =
     (let destDir = Dir fs destPath in
      if mkdirAllFails fs destDir then (Some CreateDirFailed, fs)
      else if openFails fs sourcePath \<or> files fs sourcePath = None then (Some OpenFailed, fs)
      else if createFails fs destPath then (Some CreateFailed, fs)
      else (let fs1 = os_Create fs destPath in
            if VerifyIntegrity options
            then copyWithVerification options fs1 p sourcePath destPath
            else (let fs2 = os_Write fs1 destPath (written p) in
                  if copyErr p then (Some CopyFailed, fs2) else (None, fs2))))"

definition processTask ::
  "ParallelCopyOptions \<Rightarrow> fsys \<Rightarrow> pass \<Rightarrow> CopyTask \<Rightarrow> error option \<times> fsys" where
  "processTask options fs p task =
     (if IsDir task then
        (if mkdirAllFails fs (DestPath task) then (Some MkdirAllError, fs) else (None, fs))
      else copyFile options fs p (SourcePath task) (DestPath task))"

text \<open>
  The sequential copier of the same package (\<open>LegacyAutoCopier.copyFile\<close>), which
  \<open>AutoCopier.Run\<close> uses when \<open>UseParallel\<close> is off. After the copy it reads the
  source's mode and sets it on the destination, ignoring a failure of either call.
\<close>

definition Legacy_copyFile :: "fsys \<Rightarrow> pass \<Rightarrow> string \<Rightarrow> string \<Rightarrow> error option \<times> fsys" where
  "Legacy_copyFile fs p sourcePath destPath =
     (let destDir = Dir fs destPath in
      if mkdirAllFails fs destDir then (Some CreateDirFailed, fs)
      else if openFails fs sourcePath \<or> files fs sourcePath = None then (Some OpenFailed, fs)
      else if createFails fs destPath then (Some CreateFailed, fs)
      else (let fs1 = os_Create fs destPath;
                fs2 = os_Write fs1 destPath (written p) in
            if copyErr p then (Some CopyFailed, fs2)
            else (case (if statFails fs2 sourcePath then None else files fs2 sourcePath) of
                    Some sourceInfo \<Rightarrow> (None, os_Chmod fs2 destPath (mode sourceInfo))
                  | None \<Rightarrow> (None, fs2))))"

section \<open>The engine: coordinator, producer, workers and the two handlers\<close>

text \<open>
  \<open>Run\<close> starts up to two handler goroutines, discovers the tasks, starts
  \<open>MaxWorkers\<close> workers and a producer, waits for the workers, closes the two
  streams, waits for the handlers and returns. The goroutines share the fields of the
  \<open>ParallelCopier\<close>; each goroutine has a position in its own code. The engine state
  holds both, and one event is one goroutine moving to its next position. Which event
  comes next is not decided by the program, so a run is a list of events, and a
  property of the engine is a property of every such list.

  What is fixed for one call of \<open>Run\<close>: the machine, the options given to
  \<open>NewParallelCopier\<close>, the items of the configuration and the two directories.
\<close>

record run =
  machine :: env
  given_options :: ParallelCopyOptions
  config_items :: "AutoCopyItem list"
  run_sourceDir :: string
  run_destDir :: string

definition options_of :: "run \<Rightarrow> ParallelCopyOptions" where
  "options_of c = NewParallelCopier (given_options c)"

text \<open>Positions of the coordinator (the goroutine that called \<open>Run\<close>).\<close>

datatype cstate =
    Discovering "AutoCopyItem list" "CopyTask list"
      \<comment> \<open>in the loop of discoverTasks: the items still to visit, the tasks found so far\<close>
  | Waiting      \<comment> \<open>at pc.wg.Wait()\<close>
  | Closing      \<comment> \<open>at progressWg.Wait() and errorWg.Wait()\<close>
  | Returned "error option"   \<comment> \<open>Run has returned this value; None is nil\<close>

text \<open>The producer goroutine: not started, sending the tasks left, or past close(taskQueue).\<close>

datatype pstate = NotStarted | Sending "CopyTask list" | Closed

text \<open>
  Positions of a worker: at the head of \<open>for task := range pc.taskQueue\<close>; holding a
  task before \<open>processTask\<close>; before the locked update of the counters; after it, with
  the four values read under the lock; returned.
\<close>

datatype wstate =
    AtRange
  | Got CopyTask
  | AtUpdate CopyTask
  | AtReport int int int int   \<comment> \<open>current, total, copied, totalBytes\<close>
  | Exited

datatype hstate = Absent | Draining | Finished

record ParallelCopier =
  coordinator :: cstate
  producer :: pstate
  workers :: "wstate list"
  progressHandler :: hstate
  errorHandler :: hstate
  taskQueue :: "CopyTask list"
  results :: "error list"
  progress :: "ProgressUpdate list"
  progressClosed :: bool
  errors :: "CopyError list"
  errorsClosed :: bool
  totalTasks :: int
  completedTasks :: int
  totalBytes :: int
  copiedBytes :: int
  progressSeen :: "ProgressUpdate list"   \<comment> \<open>the arguments of the calls of ProgressCallback\<close>
  errorsSeen :: "CopyError list"          \<comment> \<open>the arguments of the calls of ErrorCallback\<close>

definition Run_init :: "run \<Rightarrow> ParallelCopier" where
  "Run_init c =
     \<lparr>coordinator = Discovering (config_items c) [],
      producer = NotStarted,
      workers = [],
      progressHandler =
        (if ShowProgress (options_of c) \<and> ProgressCallback (options_of c)
         then Draining else Absent),
      errorHandler = (if ErrorCallback (options_of c) then Draining else Absent),
      taskQueue = [], results = [],
      progress = [], progressClosed = False,
      errors = [], errorsClosed = False,
      totalTasks = 0, completedTasks = 0, totalBytes = 0, copiedBytes = 0,
      progressSeen = [], errorsSeen = []\<rparr>"

fun sumSizes :: "CopyTask list \<Rightarrow> int \<Rightarrow> int" where
  "sumSizes [] acc = acc"
| "sumSizes (task # rest) acc = sumSizes rest (wrap64 (acc + Size task))"

text \<open>The coordinator runs one round of the loop of \<open>discoverTasks\<close>.\<close>

definition step_discover :: "run \<Rightarrow> ParallelCopier \<Rightarrow> ParallelCopier option" where
  "step_discover c s =
     (case coordinator s of
        Discovering (item # rest) tasks \<Rightarrow>
          (case discoverItemTasks (machine c) (options_of c) (run_sourceDir c)
                  (run_destDir c) item of
             Inl err \<Rightarrow>
               (if ContinueOnError (options_of c)
                then Some (s\<lparr>errors :=
                              sendError \<lparr>ErrSourcePath = Path item, ErrDestPath = [],
                                         Error = err\<rparr> (errors s),
                            coordinator := Discovering rest tasks\<rparr>)
                else Some (s\<lparr>coordinator := Returned (Some (DiscoverFailed err))\<rparr>))
           | Inr itemTasks \<Rightarrow> Some (s\<lparr>coordinator := Discovering rest (tasks @ itemTasks)\<rparr>))
      | _ \<Rightarrow> None)"

text \<open>
  Discovery is over: the coordinator sets the totals, returns at once when there is no
  task, and otherwise sends \<open>start\<close>, starts the workers and the producer and goes to
  wait for the workers.
\<close>

definition step_launch :: "run \<Rightarrow> ParallelCopier \<Rightarrow> ParallelCopier option" where
  "step_launch c s =
     (case coordinator s of
        Discovering [] tasks \<Rightarrow>
          (if int (length tasks) = 0
           then Some (s\<lparr>totalTasks := int (length tasks), coordinator := Returned None\<rparr>)
           else Some (s\<lparr>totalTasks := int (length tasks),
                        totalBytes := sumSizes tasks (totalBytes s),
                        progress :=
                          (if ShowProgress (options_of c)
                           then sendProgressUpdate (options_of c)
                                  \<lparr>Type = ProgressTypeStart, Current = 0,
                                   Total = int (length tasks), BytesCopied = 0,
                                   TotalBytes = 0\<rparr> (progress s)
                           else progress s),
                        workers := replicate (nat (MaxWorkers (options_of c))) AtRange,
                        producer := Sending tasks,
                        coordinator := Waiting\<rparr>))
      | _ \<Rightarrow> None)"

text \<open>The producer sends the next task when the queue has room, and closes it at the end.\<close>

definition step_produce :: "run \<Rightarrow> ParallelCopier \<Rightarrow> ParallelCopier option" where
  "step_produce c s =
     (case producer s of
        Sending (task # rest) \<Rightarrow>
          (if int (length (taskQueue s)) < MaxWorkers (options_of c) * 2
           then Some (s\<lparr>taskQueue := taskQueue s @ [task], producer := Sending rest\<rparr>)
           else None)
      | Sending [] \<Rightarrow> Some (s\<lparr>producer := Closed\<rparr>)
      | _ \<Rightarrow> None)"

definition worker_at :: "ParallelCopier \<Rightarrow> nat \<Rightarrow> wstate" where
  "worker_at s i = (if i < length (workers s) then workers s ! i else Exited)"

definition step_take :: "nat \<Rightarrow> ParallelCopier \<Rightarrow> ParallelCopier option" where
  "step_take i s =
     (case worker_at s i of
        AtRange \<Rightarrow>
          (case taskQueue s of
             task # rest \<Rightarrow> Some (s\<lparr>taskQueue := rest, workers := (workers s)[i := Got task]\<rparr>)
           | [] \<Rightarrow>
               (if producer s = Closed
                then Some (s\<lparr>workers := (workers s)[i := Exited]\<rparr>)
                else None))
      | _ \<Rightarrow> None)"

text \<open>
  The worker calls \<open>processTask\<close>; the file system it meets and what the streaming
  pass does come with the event. On an error it offers a \<open>CopyError\<close> to the error
  stream and, when \<open>ContinueOnError\<close> is off, puts the error on \<open>results\<close> and
  returns.
\<close>

definition step_process ::
  "run \<Rightarrow> nat \<Rightarrow> fsys \<Rightarrow> pass \<Rightarrow> ParallelCopier \<Rightarrow> ParallelCopier option" where
  "step_process c i fs p s =
     (case worker_at s i of
        Got task \<Rightarrow>
          (case fst (processTask (options_of c) fs p task) of
             None \<Rightarrow> Some (s\<lparr>workers := (workers s)[i := AtUpdate task]\<rparr>)
           | Some err \<Rightarrow>
               (if \<not> ContinueOnError (options_of c)
                then (if int (length (results s)) < MaxWorkers (options_of c)
                      then Some (s\<lparr>errors :=
                                     sendError \<lparr>ErrSourcePath = SourcePath task,
                                                ErrDestPath = DestPath task,
                                                Error = err\<rparr> (errors s),
                                   results := results s @ [err],
                                   workers := (workers s)[i := Exited]\<rparr>)
                      else None)
                else Some (s\<lparr>errors :=
                               sendError \<lparr>ErrSourcePath = SourcePath task,
                                          ErrDestPath = DestPath task,
                                          Error = err\<rparr> (errors s),
                             workers := (workers s)[i := AtUpdate task]\<rparr>)))
      | _ \<Rightarrow> None)"

text \<open>
  The update under the mutex. \<open>completedTasks\<close> counts tasks taken from a Go slice,
  so its increment cannot overflow; \<open>copiedBytes\<close> is an \<open>int64\<close> sum.
\<close>

definition step_update :: "nat \<Rightarrow> ParallelCopier \<Rightarrow> ParallelCopier option" where
  "step_update i s =
     (case worker_at s i of
        AtUpdate task \<Rightarrow>
          Some (s\<lparr>completedTasks := completedTasks s + 1,
                  copiedBytes := wrap64 (copiedBytes s + Size task),
                  workers := (workers s)
                    [i := AtReport (completedTasks s + 1) (totalTasks s)
                            (wrap64 (copiedBytes s + Size task)) (totalBytes s)]\<rparr>)
      | _ \<Rightarrow> None)"

definition step_report :: "run \<Rightarrow> nat \<Rightarrow> ParallelCopier \<Rightarrow> ParallelCopier option" where
  "step_report c i s =
     (case worker_at s i of
        AtReport current tot copied totB \<Rightarrow>
          Some (s\<lparr>progress :=
                    (if ShowProgress (options_of c) \<and> go_rem current 10 = 0
                     then sendProgressUpdate (options_of c)
                            \<lparr>Type = ProgressTypeProgress, Current = current, Total = tot,
                             BytesCopied = copied, TotalBytes = totB\<rparr> (progress s)
                     else progress s),
                  workers := (workers s)[i := AtRange]\<rparr>)
      | _ \<Rightarrow> None)"

text \<open>
  \<open>pc.wg.Wait()\<close> returns once every worker has returned; the coordinator then sends
  \<open>complete\<close> and closes both streams.
\<close>

definition step_workers_done :: "run \<Rightarrow> ParallelCopier \<Rightarrow> ParallelCopier option" where
  "step_workers_done c s =
     (if coordinator s = Waiting \<and> list_all (\<lambda>w. w = Exited) (workers s)
      then Some (s\<lparr>progress :=
                     (if ShowProgress (options_of c)
                      then sendProgressUpdate (options_of c)
                             \<lparr>Type = ProgressTypeComplete, Current = completedTasks s,
                              Total = totalTasks s, BytesCopied = copiedBytes s,
                              TotalBytes = totalBytes s\<rparr> (progress s)
                      else progress s),
                   progressClosed := True,
                   errorsClosed := True,
                   coordinator := Closing\<rparr>)
      else None)"

definition step_handle_progress :: "run \<Rightarrow> ParallelCopier \<Rightarrow> ParallelCopier option" where
  "step_handle_progress c s =
     (if progressHandler s = Draining then
        (case progress s of
           update # rest \<Rightarrow>
             Some (s\<lparr>progress := rest,
                     progressSeen :=
                       (if ProgressCallback (options_of c)
                        then progressSeen s @ [update] else progressSeen s)\<rparr>)
         | [] \<Rightarrow> (if progressClosed s then Some (s\<lparr>progressHandler := Finished\<rparr>) else None))
      else None)"

definition step_handle_errors :: "run \<Rightarrow> ParallelCopier \<Rightarrow> ParallelCopier option" where
  "step_handle_errors c s =
     (if errorHandler s = Draining then
        (case errors s of
           err # rest \<Rightarrow>
             Some (s\<lparr>errors := rest,
                     errorsSeen :=
                       (if ErrorCallback (options_of c)
                        then errorsSeen s @ [err] else errorsSeen s)\<rparr>)
         | [] \<Rightarrow> (if errorsClosed s then Some (s\<lparr>errorHandler := Finished\<rparr>) else None))
      else None)"

definition step_return :: "ParallelCopier \<Rightarrow> ParallelCopier option" where
  "step_return s =
     (if coordinator s = Closing \<and> progressHandler s \<noteq> Draining \<and> errorHandler s \<noteq> Draining
      then Some (s\<lparr>coordinator := Returned None\<rparr>)
      else None)"

datatype event =
    Discover | Launch | Produce
  | Take nat | Process nat fsys pass | Update nat | Report nat
  | WorkersDone | HandleProgress | HandleErrors | Return

fun step :: "run \<Rightarrow> event \<Rightarrow> ParallelCopier \<Rightarrow> ParallelCopier option" where
  "step c Discover s = step_discover c s"
| "step c Launch s = step_launch c s"
| "step c Produce s = step_produce c s"
| "step c (Take i) s = step_take i s"
| "step c (Process i fs p) s = step_process c i fs p s"
| "step c (Update i) s = step_update i s"
| "step c (Report i) s = step_report c i s"
| "step c WorkersDone s = step_workers_done c s"
| "step c HandleProgress s = step_handle_progress c s"
| "step c HandleErrors s = step_handle_errors c s"
| "step c Return s = step_return s"

text \<open>A run: the events in order. \<open>None\<close> when an event is not possible where it stands.\<close>

fun exec :: "run \<Rightarrow> event list \<Rightarrow> ParallelCopier \<Rightarrow> ParallelCopier option" where
  "exec c [] s = Some s"
| "exec c (ev # evs) s = (case step c ev s of None \<Rightarrow> None | Some s' \<Rightarrow> exec c evs s')"

definition Run :: "run \<Rightarrow> event list \<Rightarrow> ParallelCopier option" where
  "Run c evs = exec c evs (Run_init c)"

section \<open>What the counters are measured against\<close>



fun held :: "wstate \<Rightarrow> CopyTask list" where
  "held (Got task) = [task]"
| "held (AtUpdate task) = [task]"
| "held w = []"







section \<open>A small machine for the examples\<close>

text \<open>
  A source tree \<open>/src\<close> with a text file \<open>a.txt\<close>, a script \<open>run.sh\<close> (mode
  \<open>0755\<close>, 493) and a directory that happens to be called \<open>notes.txt\<close>; paths are
  joined with a slash; the umask is \<open>022\<close> (18).
\<close>

definition demo_machine :: env where
  "demo_machine =
     \<lparr>Join = (\<lambda>a b. a @ ''/'' @ b),
      Rel = (\<lambda>base p. if take (length base + 1) p = base @ ''/''
                        then Some (drop (length base + 1) p) else None),
      Stat = (\<lambda>p. if p = ''/src/notes.txt'' then StatDir
                   else if p = ''/src/a.txt'' then StatFile 5
                   else if p = ''/src/run.sh'' then StatFile 3
                   else StatNotExist),
      Glob = (\<lambda>pat. if pat = ''/src/*.txt'' then Some [''/src/a.txt'', ''/src/notes.txt'']
                     else Some []),
      Walk = (\<lambda>p. [])\<rparr>"

definition plain_item :: "string \<Rightarrow> AutoCopyItem" where
  "plain_item p = \<lparr>Path = p, Directory = None, Recursive = False, RootOnly = False,
                   AutoDetect = False, UseGlob = False, Exclude = [], Include = []\<rparr>"

definition plain_options :: ParallelCopyOptions where
  "plain_options = \<lparr>MaxWorkers = 1, BufferSize = 0, ShowProgress = False,
     VerifyIntegrity = False, ChecksumType = [], ContinueOnError = False,
     ProgressCallback = False, ErrorCallback = False\<rparr>"

definition demo_fs :: fsys where
  "demo_fs =
     \<lparr>files = (\<lambda>p. if p = ''/src/run.sh'' then Some \<lparr>content = [35, 33, 10], mode = 493\<rparr>
                    else if p = ''/src/a.txt'' then Some \<lparr>content = [104, 101, 108, 108, 111], mode = 420\<rparr>
                    else None),
      umask = 18,
      Dir = (\<lambda>p. if p = ''/dst/run.sh'' \<or> p = ''/dst/a.txt'' then ''/dst'' else p),
      mkdirAllFails = (\<lambda>p. False), openFails = (\<lambda>p. False), createFails = (\<lambda>p. False),
      statFails = (\<lambda>p. False), chmodFails = (\<lambda>p. False)\<rparr>"

definition run_sh_pass :: pass where
  "run_sh_pass = \<lparr>copyErr = False, written = [35, 33, 10], sourceSum = [1, 2], destSum = [1, 2]\<rparr>"

definition run_sh_task :: CopyTask where
  "run_sh_task = \<lparr>SourcePath = ''/src/run.sh'', DestPath = ''/dst/run.sh'', IsDir = False, Size = 3\<rparr>"

text \<open>
  A file system in which no file can be opened; three runs of the engine over the small
  machine; and two engine states in which the only worker holds the script's task.
\<close>

definition unreadable_fs :: fsys where
  "unreadable_fs = demo_fs\<lparr>openFails := (\<lambda>p. True)\<rparr>"

definition one_file_run :: run where
  "one_file_run =
     \<lparr>machine = demo_machine,
      given_options = plain_options\<lparr>ErrorCallback := True\<rparr>,
      config_items = [plain_item ''a.txt''],
      run_sourceDir = ''/src'', run_destDir = ''/dst''\<rparr>"

definition script_run :: run where
  "script_run =
     \<lparr>machine = demo_machine,
      given_options = plain_options,
      config_items = [plain_item ''run.sh''],
      run_sourceDir = ''/src'', run_destDir = ''/dst''\<rparr>"

definition empty_run :: run where
  "empty_run =
     \<lparr>machine = demo_machine,
      given_options = plain_options\<lparr>ShowProgress := True, ProgressCallback := True\<rparr>,
      config_items = [(plain_item ''missing.txt'')\<lparr>AutoDetect := True\<rparr>],
      run_sourceDir = ''/src'', run_destDir = ''/dst''\<rparr>"

definition nine_done :: ParallelCopier where
  "nine_done = (Run_init script_run)
     \<lparr>coordinator := Waiting, producer := Closed, workers := [AtUpdate run_sh_task],
      totalTasks := 20, completedTasks := 9, totalBytes := 60, copiedBytes := 27\<rparr>"

definition holding_task :: ParallelCopier where
  "holding_task = (Run_init one_file_run)
     \<lparr>coordinator := Waiting, producer := Closed, workers := [Got run_sh_task],
      totalTasks := 1, totalBytes := 3\<rparr>"

section \<open>Byte comparison\<close>

lemma equalBytes_from_iff:
  "equalBytes_from a b i = (\<forall>j. i \<le> j \<and> j < length a \<longrightarrow> a ! j = b ! j)"
proof (induction a b i rule: equalBytes_from.induct)
  case (1 a b i)
  show ?case
  proof (cases "i < length a")
    case False
    then show ?thesis by (subst equalBytes_from.simps) auto
  next
    case True
    show ?thesis
    proof (cases "a ! i = b ! i")
      case False
      with True show ?thesis by (subst equalBytes_from.simps) auto
    next
      case eq: True
      have "equalBytes_from a b i = equalBytes_from a b (i + 1)"
        using True eq by (subst equalBytes_from.simps) simp
      also have "\<dots> = (\<forall>j. i + 1 \<le> j \<and> j < length a \<longrightarrow> a ! j = b ! j)"
        using 1 True eq by simp
      also have "\<dots> = (\<forall>j. i \<le> j \<and> j < length a \<longrightarrow> a ! j = b ! j)"
        using eq by (metis Suc_eq_plus1 Suc_leI le_neq_implies_less Suc_leD)
      finally show ?thesis .
    qed
  qed
qed

lemma equalBytes_iff: "equalBytes a b = (a = b)"
  by (auto simp: equalBytes_def equalBytes_from_iff intro: nth_equalityI)

section \<open>Discovery: a source that does not exist\<close>

text \<open>
  Claim C2, as the code has it. When \<open>os.Stat\<close> reports that the resolved source path
  does not exist, \<open>discoverSinglePath\<close> returns no task and no error if the item's
  \<open>AutoDetect\<close> flag is set, and fails with the stat error if it is not. The repository's
  own test of the engine expects the failure for an item without \<open>AutoDetect\<close>.
\<close>

theorem missing_source:
  assumes "Stat e (Join e sourceDir relativePath) = StatNotExist"
  shows "discoverSinglePath e sourceDir destDir relativePath item =
           (if AutoDetect item then Inr []
            else Inl (StatFailed (Join e sourceDir relativePath)))"
  using assms by (simp add: discoverSinglePath_def Let_def)

theorem missing_source_witness:
  "Stat demo_machine (Join demo_machine ''/src'' ''missing.txt'') = StatNotExist \<and>
   discoverSinglePath demo_machine ''/src'' ''/dst'' ''missing.txt''
     ((plain_item ''missing.txt'')\<lparr>AutoDetect := True\<rparr>) = Inr []"
  using missing_source [of demo_machine "''/src''" "''missing.txt''" "''/dst''"
      "(plain_item ''missing.txt'')\<lparr>AutoDetect := True\<rparr>"]
  by (simp add: demo_machine_def plain_item_def)

text \<open>
  The claim as stated (no error whatever the flags) fails for an item that declares a file
  and names a path that is not there: discovery returns the stat error.
\<close>

theorem missing_source_cex:
  "Stat demo_machine (Join demo_machine ''/src'' ''nonexistent.txt'') = StatNotExist \<and>
   discoverTasks demo_machine plain_options ''/src'' ''/dst''
     [(plain_item ''nonexistent.txt'')\<lparr>Directory := Some False\<rparr>] []
     = (Inl (StatFailed ''/src/nonexistent.txt''), [])"
  by (simp add: discoverTasks_def discoverItemTasks_def discoverSinglePath_def
      demo_machine_def plain_item_def plain_options_def)

section \<open>Discovery: declared kind against the entry found\<close>

text \<open>
  Claim C6, as the code has it, for an item that is not a glob item. When the item declares
  a file and a directory is found, or declares a directory and a file is found, discovery of
  the item fails with the mismatch error. In the loop over the items this ends discovery
  with that error when \<open>ContinueOnError\<close> is off; when it is on, the item contributes
  no task, a \<open>CopyError\<close> for it is offered to the error stream (and is accepted when the
  stream holds fewer than 100 entries), and the loop goes on with the remaining items.
\<close>

theorem kind_mismatch:
  assumes "\<not> UseGlob item"
    and "(Stat e (Join e sourceDir (Path item)) = StatDir \<and> Directory item = Some False
            \<and> err = ExpectedFile (Join e sourceDir (Path item)))
       \<or> (Stat e (Join e sourceDir (Path item)) = StatFile sz \<and> Directory item = Some True
            \<and> err = ExpectedDirectory (Join e sourceDir (Path item)))"
  shows "discoverItemTasks e options sourceDir destDir item = Inl err
       \<and> discoverTasks_loop e options sourceDir destDir (item # rest) tasks ch =
           (if ContinueOnError options
            then discoverTasks_loop e options sourceDir destDir rest tasks
                   (sendError \<lparr>ErrSourcePath = Path item, ErrDestPath = [], Error = err\<rparr> ch)
            else (Inl err, ch))
       \<and> (if length ch < 100
          then sendError \<lparr>ErrSourcePath = Path item, ErrDestPath = [], Error = err\<rparr> ch
                 = ch @ [\<lparr>ErrSourcePath = Path item, ErrDestPath = [], Error = err\<rparr>]
          else sendError \<lparr>ErrSourcePath = Path item, ErrDestPath = [], Error = err\<rparr> ch = ch)"
proof -
  have 1: "discoverItemTasks e options sourceDir destDir item = Inl err"
    using assms by (auto simp: discoverItemTasks_def discoverSinglePath_def Let_def)
  show ?thesis using 1 by (simp add: sendError_def)
qed

theorem kind_mismatch_witness:
  "discoverTasks_loop demo_machine (plain_options\<lparr>ContinueOnError := True\<rparr>) ''/src'' ''/dst''
     [(plain_item ''notes.txt'')\<lparr>Directory := Some False\<rparr>, plain_item ''a.txt''] [] []
   = (Inr [\<lparr>SourcePath = ''/src/a.txt'', DestPath = ''/dst/a.txt'', IsDir = False, Size = 5\<rparr>],
      [\<lparr>ErrSourcePath = ''notes.txt'', ErrDestPath = [],
        Error = ExpectedFile ''/src/notes.txt''\<rparr>])"
  using kind_mismatch [of "(plain_item ''notes.txt'')\<lparr>Directory := Some False\<rparr>"
      demo_machine "''/src''" "ExpectedFile ''/src/notes.txt''" 0
      "plain_options\<lparr>ContinueOnError := True\<rparr>" "''/dst''" "[plain_item ''a.txt'']" "[]" "[]"]
  by (simp add: demo_machine_def plain_item_def plain_options_def sendError_def
      discoverItemTasks_def discoverSinglePath_def)

text \<open>
  The claim as stated covers every item. For a glob item under \<open>ContinueOnError\<close> the
  mismatching match is passed over inside \<open>discoverItemTasks\<close>: the other matches
  still give tasks and nothing reaches the error stream.
\<close>

theorem kind_mismatch_cex:
  "Stat demo_machine ''/src/notes.txt'' = StatDir \<and>
   discoverTasks demo_machine (plain_options\<lparr>ContinueOnError := True\<rparr>) ''/src'' ''/dst''
     [(plain_item ''*.txt'')\<lparr>Directory := Some False, UseGlob := True\<rparr>] []
   = (Inr [\<lparr>SourcePath = ''/src/a.txt'', DestPath = ''/dst/a.txt'', IsDir = False, Size = 5\<rparr>], [])"
  by (simp add: discoverTasks_def discoverItemTasks_def discoverSinglePath_def
      demo_machine_def plain_item_def plain_options_def)

section \<open>Integrity verification\<close>

lemma files_os_Create_Write:
  "\<exists>f. files (os_Write (os_Create fs d) d bs) d = Some f \<and> content f = bs"
  by (simp add: os_Create_def os_Write_def split: option.splits)

text \<open>
  Claim C4. With verification on, a file task ends with the integrity error exactly when
  the streaming pass was reached and ended without an error (the directory, the source
  and the destination could be opened, and the checksum type is the supported one) and
  the two digests taken after the pass are not the same bytes. When it ends so, the
  destination file is still there and holds the bytes the pass wrote: nothing removes it.
\<close>

theorem integrity_error_iff:
  assumes "VerifyIntegrity options" and "\<not> IsDir task"
  shows "(fst (processTask options fs p task) = Some IntegrityFailed) =
           (\<not> mkdirAllFails fs (Dir fs (DestPath task))
            \<and> \<not> openFails fs (SourcePath task) \<and> files fs (SourcePath task) \<noteq> None
            \<and> \<not> createFails fs (DestPath task)
            \<and> ChecksumType options = ''sha256'' \<and> \<not> copyErr p
            \<and> sourceSum p \<noteq> destSum p)
       \<and> (if fst (processTask options fs p task) = Some IntegrityFailed
          then \<exists>f. files (snd (processTask options fs p task)) (DestPath task) = Some f
                   \<and> content f = written p
          else True)"
proof -
  have A: "(fst (processTask options fs p task) = Some IntegrityFailed) =
           (\<not> mkdirAllFails fs (Dir fs (DestPath task))
            \<and> \<not> openFails fs (SourcePath task) \<and> files fs (SourcePath task) \<noteq> None
            \<and> \<not> createFails fs (DestPath task)
            \<and> ChecksumType options = ''sha256'' \<and> \<not> copyErr p
            \<and> sourceSum p \<noteq> destSum p)"
    using assms
    by (auto simp: processTask_def copyFile_def copyWithVerification_def Let_def equalBytes_iff)
  have B: "\<exists>f. files (snd (processTask options fs p task)) (DestPath task) = Some f
                   \<and> content f = written p"
    if "fst (processTask options fs p task) = Some IntegrityFailed"
    using that assms files_os_Create_Write [of fs "DestPath task" "written p"]
    by (auto simp: processTask_def copyFile_def copyWithVerification_def Let_def
        split: if_splits)
  show ?thesis using A B by simp
qed

theorem integrity_error_iff_witness:
  "VerifyIntegrity (plain_options\<lparr>VerifyIntegrity := True, ChecksumType := ''sha256''\<rparr>)
   \<and> \<not> IsDir run_sh_task
   \<and> fst (processTask (plain_options\<lparr>VerifyIntegrity := True, ChecksumType := ''sha256''\<rparr>)
         demo_fs (run_sh_pass\<lparr>destSum := [1, 3]\<rparr>) run_sh_task) = Some IntegrityFailed
   \<and> (\<exists>f. files (snd (processTask
                (plain_options\<lparr>VerifyIntegrity := True, ChecksumType := ''sha256''\<rparr>)
                demo_fs (run_sh_pass\<lparr>destSum := [1, 3]\<rparr>) run_sh_task)) (DestPath run_sh_task)
             = Some f
           \<and> content f = written (run_sh_pass\<lparr>destSum := [1, 3]\<rparr>))"
proof -
  have h1: "VerifyIntegrity (plain_options\<lparr>VerifyIntegrity := True, ChecksumType := ''sha256''\<rparr>)"
    by simp
  have h2: "\<not> IsDir run_sh_task"
    by (simp add: run_sh_task_def)
  note T = integrity_error_iff [OF h1 h2, of demo_fs "run_sh_pass\<lparr>destSum := [1, 3]\<rparr>"]
  have e: "fst (processTask (plain_options\<lparr>VerifyIntegrity := True, ChecksumType := ''sha256''\<rparr>)
         demo_fs (run_sh_pass\<lparr>destSum := [1, 3]\<rparr>) run_sh_task) = Some IntegrityFailed"
    by (subst T [THEN conjunct1])
       (simp add: run_sh_task_def demo_fs_def run_sh_pass_def)
  from T [THEN conjunct2] e h1 h2 show ?thesis
    by (simp only: if_True simp_thms)
qed

section \<open>Permission bits\<close>

text \<open>
  Claim C7, evaluated on the script of the small machine (mode \<open>0755\<close>, 493). The
  engine's \<open>copyFile\<close> succeeds and leaves the destination with what \<open>os.Create\<close>
  gave it, \<open>0666\<close> without the umask bits (\<open>0644\<close>, 420): it never calls
  \<open>os.Chmod\<close>. The sequential copier of the same package, on the same input, ends with
  the source's mode.
\<close>

theorem parallel_copy_drops_mode:
  "fst (processTask (NewParallelCopier plain_options) demo_fs run_sh_pass run_sh_task) = None
   \<and> files demo_fs ''/src/run.sh'' = Some \<lparr>content = [35, 33, 10], mode = 493\<rparr>
   \<and> files (snd (processTask (NewParallelCopier plain_options) demo_fs run_sh_pass run_sh_task))
       ''/dst/run.sh'' = Some \<lparr>content = [35, 33, 10], mode = 420\<rparr>
   \<and> files (snd (Legacy_copyFile demo_fs run_sh_pass ''/src/run.sh'' ''/dst/run.sh''))
       ''/dst/run.sh'' = Some \<lparr>content = [35, 33, 10], mode = 493\<rparr>"
  by (simp add: processTask_def copyFile_def Legacy_copyFile_def NewParallelCopier_def
      plain_options_def demo_fs_def run_sh_pass_def run_sh_task_def os_Create_def os_Write_def
      os_Chmod_def Let_def)

section \<open>Runs of the engine on the small machine\<close>

lemmas step_defs = step_discover_def step_launch_def step_produce_def step_take_def
  step_process_def step_update_def step_report_def step_workers_done_def
  step_handle_progress_def step_handle_errors_def step_return_def worker_at_def

lemmas eval_defs = Run_def Run_init_def options_of_def NewParallelCopier_def
  discoverItemTasks_def discoverSinglePath_def processTask_def copyFile_def
  sendError_def sendProgressUpdate_def Let_def wrap64_def go_rem_def
  demo_machine_def plain_item_def plain_options_def demo_fs_def

text \<open>
  Claim C1, evaluated. One file, \<open>ContinueOnError\<close> off, and the source cannot be
  opened: the worker puts the error on \<open>results\<close> and returns, and \<open>Run\<close> returns
  nil. Nothing in \<open>Run\<close> reads \<open>results\<close>.
\<close>

theorem fatal_error_not_returned:
  "map_option coordinator
     (Run one_file_run
        [Discover, Launch, Produce, Take 0, Process 0 unreadable_fs run_sh_pass,
         Produce, WorkersDone, HandleErrors, HandleErrors, Return])
     = Some (Returned None)
   \<and> map_option results
     (Run one_file_run
        [Discover, Launch, Produce, Take 0, Process 0 unreadable_fs run_sh_pass,
         Produce, WorkersDone, HandleErrors, HandleErrors, Return])
     = Some [OpenFailed]
   \<and> ContinueOnError (options_of one_file_run) = False"
  by (simp add: step_defs eval_defs one_file_run_def unreadable_fs_def run_sh_pass_def)

text \<open>
  Claim C10 as stated fails when \<open>ContinueOnError\<close> is off: the worker returns
  before the update, and the failed task of 3 bytes is counted in neither counter.
\<close>

theorem failed_task_not_counted:
  "map_option completedTasks
     (Run script_run
        [Discover, Launch, Produce, Take 0, Process 0 unreadable_fs run_sh_pass,
         Produce, WorkersDone, Return]) = Some 0
   \<and> map_option copiedBytes
     (Run script_run
        [Discover, Launch, Produce, Take 0, Process 0 unreadable_fs run_sh_pass,
         Produce, WorkersDone, Return]) = Some 0
   \<and> map_option totalBytes
     (Run script_run
        [Discover, Launch, Produce, Take 0, Process 0 unreadable_fs run_sh_pass,
         Produce, WorkersDone, Return]) = Some 3
   \<and> map_option workers
     (Run script_run
        [Discover, Launch, Produce, Take 0, Process 0 unreadable_fs run_sh_pass,
         Produce, WorkersDone, Return]) = Some [Exited]"
  by (simp add: step_defs eval_defs script_run_def unreadable_fs_def run_sh_pass_def)

text \<open>
  Claim C3 as stated fails for a run that discovers no task: \<open>Run\<close> returns before
  \<open>start\<close> is sent, nothing is ever put on the progress stream, the stream is never
  closed, and the handler has nothing to receive.
\<close>

theorem no_start_without_tasks:
  "ShowProgress (options_of empty_run) \<and> ProgressCallback (options_of empty_run)
   \<and> map_option coordinator (Run empty_run [Discover, Launch]) = Some (Returned None)
   \<and> map_option progress (Run empty_run [Discover, Launch]) = Some []
   \<and> map_option progressSeen (Run empty_run [Discover, Launch]) = Some []
   \<and> Run empty_run [Discover, Launch, HandleProgress] = None"
  by (simp add: step_defs eval_defs empty_run_def)

section \<open>A worker after one task\<close>

lemma go_rem_10: "(go_rem a 10 = 0) = (10 dvd a)"
  by (auto simp: go_rem_def sgn_if dvd_eq_mod_eq_0 zmod_zminus1_eq_if)

text \<open>
  Claim C9. With progress reporting on, a worker that has processed a task increments the
  shared counter under the lock and then calls \<open>sendProgressUpdate\<close> with a
  \<open>progress\<close> update exactly when the value it set is a multiple of 10. The 10 is a
  literal of the code; no option enters the condition.
\<close>

theorem progress_sample_every_tenth:
  assumes "ShowProgress (options_of c)" and "worker_at s i = AtUpdate task"
  shows "\<exists>s'. exec c [Update i, Report i] s = Some s'
           \<and> completedTasks s' = completedTasks s + 1
           \<and> progress s' =
               (if 10 dvd completedTasks s + 1
                then sendProgressUpdate (options_of c)
                       \<lparr>Type = ProgressTypeProgress, Current = completedTasks s + 1,
                        Total = totalTasks s,
                        BytesCopied = wrap64 (copiedBytes s + Size task),
                        TotalBytes = totalBytes s\<rparr> (progress s)
                else progress s)"
  using assms
  by (auto simp: step_update_def step_report_def worker_at_def go_rem_10 split: if_splits)

theorem progress_sample_every_tenth_witness:
  "ShowProgress (options_of (script_run\<lparr>given_options := plain_options\<lparr>ShowProgress := True\<rparr>\<rparr>))
   \<and> worker_at nine_done 0 = AtUpdate run_sh_task
   \<and> map_option progress
        (exec (script_run\<lparr>given_options := plain_options\<lparr>ShowProgress := True\<rparr>\<rparr>)
           [Update 0, Report 0] nine_done)
      = Some [\<lparr>Type = ProgressTypeProgress, Current = 10, Total = 20, BytesCopied = 30,
               TotalBytes = 60\<rparr>]"
proof -
  let ?c = "script_run\<lparr>given_options := plain_options\<lparr>ShowProgress := True\<rparr>\<rparr>"
  have h1: "ShowProgress (options_of ?c)"
    by (simp add: options_of_def NewParallelCopier_def script_run_def plain_options_def Let_def)
  have h2: "worker_at nine_done 0 = AtUpdate run_sh_task"
    by (simp add: worker_at_def nine_done_def)
  from progress_sample_every_tenth [OF h1 h2] obtain s' where
    s': "exec ?c [Update 0, Report 0] nine_done = Some s'"
    and p: "progress s' =
               (if 10 dvd completedTasks nine_done + 1
                then sendProgressUpdate (options_of ?c)
                       \<lparr>Type = ProgressTypeProgress, Current = completedTasks nine_done + 1,
                        Total = totalTasks nine_done,
                        BytesCopied = wrap64 (copiedBytes nine_done + Size run_sh_task),
                        TotalBytes = totalBytes nine_done\<rparr> (progress nine_done)
                else progress nine_done)"
    by blast
  have "progress s' = [\<lparr>Type = ProgressTypeProgress, Current = 10, Total = 20,
      BytesCopied = 30, TotalBytes = 60\<rparr>]"
    unfolding p using h1
    by (simp add: nine_done_def Run_init_def sendProgressUpdate_def wrap64_def run_sh_task_def)
  with s' h1 h2 show ?thesis by simp
qed

text \<open>
  Claim C10, as the code has it. After \<open>processTask\<close> the worker adds 1 to
  \<open>completedTasks\<close> and the task's declared size to \<open>copiedBytes\<close> when the task
  succeeded, and also when it failed and \<open>ContinueOnError\<close> is on. When it failed and
  \<open>ContinueOnError\<close> is off there is no update: the worker has returned and both
  counters are as before.
\<close>

theorem counters_after_task:
  assumes "worker_at s i = Got task"
  shows "if fst (processTask (options_of c) fs p task) = None \<or> ContinueOnError (options_of c)
         then \<exists>s'. exec c [Process i fs p, Update i] s = Some s'
                 \<and> completedTasks s' = completedTasks s + 1
                 \<and> copiedBytes s' = wrap64 (copiedBytes s + Size task)
         else exec c [Process i fs p, Update i] s = None
              \<and> (case step c (Process i fs p) s of
                    None \<Rightarrow> True
                  | Some s' \<Rightarrow> completedTasks s' = completedTasks s
                       \<and> copiedBytes s' = copiedBytes s \<and> worker_at s' i = Exited)"
  using assms
  by (auto simp: step_process_def step_update_def worker_at_def split: if_splits option.splits)

theorem counters_after_task_witness:
  "worker_at holding_task 0 = Got run_sh_task
   \<and> map_option completedTasks
        (exec (one_file_run\<lparr>given_options := plain_options\<lparr>ContinueOnError := True\<rparr>\<rparr>)
           [Process 0 unreadable_fs run_sh_pass, Update 0] holding_task) = Some 1
   \<and> map_option copiedBytes
        (exec (one_file_run\<lparr>given_options := plain_options\<lparr>ContinueOnError := True\<rparr>\<rparr>)
           [Process 0 unreadable_fs run_sh_pass, Update 0] holding_task) = Some 3
   \<and> fst (processTask
        (options_of (one_file_run\<lparr>given_options := plain_options\<lparr>ContinueOnError := True\<rparr>\<rparr>))
        unreadable_fs run_sh_pass run_sh_task) = Some OpenFailed"
proof -
  let ?c = "one_file_run\<lparr>given_options := plain_options\<lparr>ContinueOnError := True\<rparr>\<rparr>"
  have h: "worker_at holding_task 0 = Got run_sh_task"
    by (simp add: worker_at_def holding_task_def)
  have k: "ContinueOnError (options_of ?c)"
    by (simp add: options_of_def NewParallelCopier_def one_file_run_def plain_options_def Let_def)
  have f: "fst (processTask (options_of ?c) unreadable_fs run_sh_pass run_sh_task)
             = Some OpenFailed"
    by (simp add: processTask_def copyFile_def unreadable_fs_def demo_fs_def run_sh_task_def
        Let_def)
  from counters_after_task [OF h, of ?c unreadable_fs run_sh_pass] k obtain s' where
    "exec ?c [Process 0 unreadable_fs run_sh_pass, Update 0] holding_task = Some s'"
    "completedTasks s' = completedTasks holding_task + 1"
    "copiedBytes s' = wrap64 (copiedBytes holding_task + Size run_sh_task)"
    by auto
  then show ?thesis using h f
    by (simp add: holding_task_def Run_init_def wrap64_def run_sh_task_def)
qed

section \<open>The counters of a run\<close>





lemma held_replicate [simp]: "concat (map held (replicate n AtRange)) = []"
  by (induction n) auto



























end
